theory Spec2Isabelle
  imports Main
begin

section \<open>The parsed document\<close>

text \<open>
  The XML parser hands the validators a tree of JavaScript values: text, numbers (the
  parser turns numeric text into numbers), objects keyed by tag name and arrays for
  repeated tags. Of a number the validators only ever observe whether it is zero, so an
  integer payload is enough. Strings are lists of characters; lower-casing is modelled
  on the ASCII letters.
\<close>

datatype jsval =
    Undefined
  | Str string
  | Num int
  | Obj "(string \<times> jsval) list"
  | Arr "jsval list"

fun truthy :: "jsval \<Rightarrow> bool" where
  "truthy Undefined = False"
| "truthy (Str s) = (s \<noteq> [])"
| "truthy (Num n) = (n \<noteq> 0)"
| "truthy (Obj kvs) = True"
| "truthy (Arr vs) = True"

text \<open>Member access \<open>v.k\<close> (and \<open>v?.k\<close>): only an object has the tags of the document.\<close>

fun getProp :: "jsval \<Rightarrow> string \<Rightarrow> jsval" where
  "getProp (Obj kvs) k = (case map_of kvs k of Some v \<Rightarrow> v | None \<Rightarrow> Undefined)"
| "getProp v k = Undefined"

text \<open>The operator \<open>a || b\<close>.\<close>

definition js_or :: "jsval \<Rightarrow> jsval \<Rightarrow> jsval" where
  "js_or a b = (if truthy a then a else b)"

datatype exn = SyntaxError string | Error string | TypeError string | RangeError string

fun message :: "exn \<Rightarrow> string" where
  "message (SyntaxError m) = m"
| "message (Error m) = m"
| "message (TypeError m) = m"
| "message (RangeError m) = m"

datatype jsnum = NaN | Number int

type_synonym jsdate = "int option"

section \<open>String operations\<close>

definition lower :: "char \<Rightarrow> char" where
  "lower c =
     (case map_of (zip ''ABCDEFGHIJKLMNOPQRSTUVWXYZ'' ''abcdefghijklmnopqrstuvwxyz'') c of
        Some d \<Rightarrow> d
      | None \<Rightarrow> c)"

definition toLowerCase :: "string \<Rightarrow> string" where
  "toLowerCase s = map lower s"

fun startsWith :: "string \<Rightarrow> string \<Rightarrow> bool" where
  "startsWith s [] = True"
| "startsWith [] (p # ps) = False"
| "startsWith (c # cs) (p # ps) = (c = p \<and> startsWith cs ps)"

fun str_includes :: "string \<Rightarrow> string \<Rightarrow> bool" where
  "str_includes [] pat = (pat = [])"
| "str_includes (c # cs) pat = (startsWith (c # cs) pat \<or> str_includes cs pat)"

text \<open>\<open>str.substring(a, b)\<close>: both ends are clamped to the length and swapped if needed.\<close>

definition substring :: "string \<Rightarrow> nat \<Rightarrow> nat \<Rightarrow> string" where
  "substring s a b = (let lo = min a b; hi = max a b in take (hi - lo) (drop lo s))"

text \<open>\<open>str.split(',')[0]\<close>: the text before the first comma.\<close>

definition splitComma0 :: "string \<Rightarrow> string" where
  "splitComma0 s = takeWhile (\<lambda>c. c \<noteq> CHR '','') s"

text \<open>\<open>str.replace(pat, '')\<close> with a non-empty text pattern: the first occurrence goes.\<close>

fun removeFirst :: "string \<Rightarrow> string \<Rightarrow> string" where
  "removeFirst pat [] = []"
| "removeFirst pat (c # cs) =
     (if startsWith (c # cs) pat then drop (length pat) (c # cs)
      else c # removeFirst pat cs)"

section \<open>External collaborators\<close>

text \<open>What the X.509 decoder reads from one certificate.\<close>

record X509 =
  getNotAfter :: string
  getNotBefore :: string
  getSerialNumberHex :: string
  getIssuerString :: string
  getSubjectString :: string
  hex :: string
  getSignatureAlgorithmField :: string

text \<open>
  The libraries and the browser are parameters of the model: the XML parser (which
  returns a tree or throws), the certificate decoder (\<open>None\<close> when any of its calls
  throws), the hash, the \<open>Date\<close> constructor on a text (\<open>None\<close> is the invalid date,
  otherwise milliseconds), the clock read for certificate \<open>i\<close> and for the report, the
  date formatter, the day difference, the message catalogue and the random draw below
  500. The numeric validator reads a certificate through the same decoder.
\<close>

record env =
  parse :: "string \<Rightarrow> exn + jsval"
  decode :: "jsval \<Rightarrow> X509 option"
  hashHex :: "string \<Rightarrow> string"
  newDate :: "string \<Rightarrow> jsdate"
  nowCert :: "int \<Rightarrow> int"
  nowReport :: int
  formatDate :: "jsdate \<Rightarrow> exn + string"
  differenceInDays :: "jsdate \<Rightarrow> int \<Rightarrow> jsnum"
  translate :: "string \<Rightarrow> string"
  random500 :: nat

section \<open>Certificates\<close>

datatype certType = ROOT | INTERMEDIATE | END_ENTITY

fun typeOrder :: "certType \<Rightarrow> nat" where
  "typeOrder ROOT = 0"
| "typeOrder INTERMEDIATE = 1"
| "typeOrder END_ENTITY = 2"

text \<open>
  The certificate record of the earlier validator (\<open>CertDetail\<close> of part_000); the
  current validator (pages/Validator.tsx) adds the raw subject and issuer.
\<close>

record CertDetail_p0 =
  index :: int
  ctype :: certType
  serial :: string
  subject :: string
  issuer :: string
  sigAlgo :: string
  notBefore :: jsdate
  notAfter :: jsdate
  isExpired :: bool
  isValid :: bool
  isRevoked :: bool
  isGoogleRoot :: bool
  fingerprint :: string

record CertDetail = CertDetail_p0 +
  rawSubject :: string
  rawIssuer :: string

definition calculateFingerprint :: "env \<Rightarrow> string \<Rightarrow> string" where
  "calculateFingerprint E h = substring (hashHex E h) 0 32"

definition parseDate :: "env \<Rightarrow> string \<Rightarrow> jsdate" where
  "parseDate E str =
     (let year = (if length str = 13 then ''20'' @ substring str 0 2 else substring str 0 4);
          month = (if length str = 13 then substring str 2 4 else substring str 4 6);
          day = (if length str = 13 then substring str 4 6 else substring str 6 8)
      in newDate E (year @ ''-'' @ month @ ''-'' @ day))"

text \<open>\<open>now > notAfter\<close>: a comparison with the invalid date is false.\<close>

definition dateAfter :: "int \<Rightarrow> jsdate \<Rightarrow> bool" where
  "dateAfter now d = (case d of None \<Rightarrow> False | Some t \<Rightarrow> now > t)"

subsection \<open>The current validator (pages/Validator.tsx)\<close>

definition LEAK_DB :: "string list" where
  "LEAK_DB =
     [''2b0a09a69c59b482ddb8a21786fdd439'', ''f92009e853b6b045'', ''deadbeef'',
      ''0c8684c66d5c3f63c2d2494b72b82d50'', ''1e016753308a01c036070b9916296a27'']"

text \<open>The role of a certificate, lines 144 to 149 of \<open>parseCertificate\<close>.\<close>

definition certTypeOf :: "bool \<Rightarrow> string \<Rightarrow> string \<Rightarrow> int \<Rightarrow> int \<Rightarrow> certType" where
  "certTypeOf googleRoot iss subj idx tot =
     (if googleRoot \<and> iss = subj then ROOT
      else if idx = 0 then END_ENTITY
      else if idx = tot - 1 then ROOT
      else INTERMEDIATE)"

definition simplified :: "string \<Rightarrow> string" where
  "simplified s = removeFirst ''OU='' (removeFirst ''CN='' (splitComma0 s))"

definition parseCertificate :: "env \<Rightarrow> jsval \<Rightarrow> int \<Rightarrow> int \<Rightarrow> CertDetail option" where
  "parseCertificate E pem idx tot =
     (case decode E pem of
        None \<Rightarrow> None
      | Some cert \<Rightarrow>
          (let na = parseDate E (getNotAfter cert);
               nb = parseDate E (getNotBefore cert);
               now = nowCert E idx;
               expired = dateAfter now na;
               ser = getSerialNumberHex cert;
               iss = getIssuerString cert;
               subj = getSubjectString cert;
               fp = calculateFingerprint E (hex cert);
               revoked = list_ex (\<lambda>bad. str_includes (toLowerCase ser) bad) LEAK_DB;
               googleRoot = str_includes (toLowerCase iss) ''google''
           in Some \<lparr> index = idx + 1,
                     ctype = certTypeOf googleRoot iss subj idx tot,
                     serial = ser,
                     subject = simplified subj,
                     issuer = simplified iss,
                     sigAlgo = getSignatureAlgorithmField cert,
                     notBefore = nb,
                     notAfter = na,
                     isExpired = expired,
                     isValid = True,
                     isRevoked = revoked,
                     isGoogleRoot = googleRoot,
                     fingerprint = fp,
                     rawSubject = subj,
                     rawIssuer = iss \<rparr>))"

subsection \<open>The earlier validator (part_000)\<close>

definition LEAK_DB_p0 :: "string list" where
  "LEAK_DB_p0 = [''2b0a09a69c59b482ddb8a21786fdd439'', ''f92009e853b6b045'', ''deadbeef'']"

text \<open>The role of a certificate, lines 122 to 127 of \<open>parseCertificate\<close>.\<close>

definition certTypeOf_p0 :: "bool \<Rightarrow> int \<Rightarrow> int \<Rightarrow> certType" where
  "certTypeOf_p0 googleRoot idx tot =
     (let ty = (if idx = tot - 1 then ROOT
                else if idx = 0 then END_ENTITY
                else INTERMEDIATE)
      in if googleRoot \<and> idx > 0 then ROOT else ty)"

definition parseCertificate_p0 :: "env \<Rightarrow> jsval \<Rightarrow> int \<Rightarrow> int \<Rightarrow> CertDetail_p0 option" where
  "parseCertificate_p0 E pem idx tot =
     (case decode E pem of
        None \<Rightarrow> None
      | Some cert \<Rightarrow>
          (let na = parseDate E (getNotAfter cert);
               nb = parseDate E (getNotBefore cert);
               now = nowCert E idx;
               expired = dateAfter now na;
               ser = getSerialNumberHex cert;
               iss = getIssuerString cert;
               subj = getSubjectString cert;
               fp = calculateFingerprint E (hex cert);
               revoked = list_ex (\<lambda>bad. str_includes (toLowerCase ser) bad) LEAK_DB_p0;
               googleRoot = str_includes (toLowerCase iss) ''google''
           in Some \<lparr> index = idx + 1,
                     ctype = certTypeOf_p0 googleRoot idx tot,
                     serial = ser,
                     subject = subj,
                     issuer = iss,
                     sigAlgo = getSignatureAlgorithmField cert,
                     notBefore = nb,
                     notAfter = na,
                     isExpired = expired,
                     isValid = True,
                     isRevoked = revoked,
                     isGoogleRoot = googleRoot,
                     fingerprint = fp \<rparr>))"

section \<open>The categorical validators\<close>

datatype overallStatus = VALID | REVOKED | EXPIRED | INVALID | WEAK

text \<open>
  The report, with the certificate record of either validator. The log lines of the
  current validator and the always empty \<open>errors\<close> list of the earlier one are written
  beside the fields below and decide none of them; the model leaves them out.
\<close>

record 'c ValidationReport =
  fileName :: string
  algorithm :: jsval
  deviceID :: jsval
  certificates :: "'c list"
  isValidStructure :: bool
  hasGoogleRoot :: bool
  isStrongIntegrityReady :: bool
  isLeaked :: bool
  seenCount :: nat
  overallStatus :: overallStatus
  expiresOn :: string
  daysRemaining :: jsnum

text \<open>
  What the page keeps: the report shown, the XML text, and the alerts raised. The copy
  that \<open>validateXML\<close> also writes to the session storage is not modelled.
\<close>

record 'c page =
  report :: "'c ValidationReport option"
  xmlContent :: string
  alerts :: "string list"

text \<open>
  \<open>kb.CertificateChain?.Certificate\<close>, made a list: an array as it is, any other truthy
  value as a single entry, nothing otherwise.
\<close>

definition certsRawOf :: "jsval \<Rightarrow> jsval list" where
  "certsRawOf kb =
     (let c = getProp (getProp kb ''CertificateChain'') ''Certificate''
      in if truthy c then (case c of Arr vs \<Rightarrow> vs | _ \<Rightarrow> [c]) else [])"

text \<open>\<open>certs.find(c => c.type === ty)\<close>.\<close>

definition findType :: "certType \<Rightarrow> ('a CertDetail_p0_scheme) list \<Rightarrow> 'a CertDetail_p0_scheme option" where
  "findType ty certs = find (\<lambda>c. ctype c = ty) certs"

text \<open>\<open>certs.find(c => c.type === 'END-ENTITY') || certs[0]\<close>; \<open>None\<close> is \<open>undefined\<close>.\<close>

definition leafCertOf :: "('a CertDetail_p0_scheme) list \<Rightarrow> 'a CertDetail_p0_scheme option" where
  "leafCertOf certs =
     (case findType END_ENTITY certs of
        Some c \<Rightarrow> Some c
      | None \<Rightarrow> (case certs of [] \<Rightarrow> None | c # cs \<Rightarrow> Some c))"

text \<open>The display order: a stable sort by \<open>typeOrder\<close>.\<close>

definition sortByType :: "('a CertDetail_p0_scheme) list \<Rightarrow> ('a CertDetail_p0_scheme) list" where
  "sortByType certs = sort_key (\<lambda>c. typeOrder (ctype c)) certs"

text \<open>\<open>!!rootCert?.isGoogleRoot\<close>.\<close>

definition googleRootOf :: "'a CertDetail_p0_scheme option \<Rightarrow> bool" where
  "googleRootOf rootCert = (case rootCert of None \<Rightarrow> False | Some r \<Rightarrow> isGoogleRoot r)"

text \<open>\<open>leafCert ? format(leafCert.notAfter, 'MMM dd, yyyy') : 'Unknown'\<close>.\<close>

definition expiresOnOf :: "env \<Rightarrow> 'a CertDetail_p0_scheme option \<Rightarrow> exn + string" where
  "expiresOnOf E leafCert =
     (case leafCert of None \<Rightarrow> Inr ''Unknown'' | Some l \<Rightarrow> formatDate E (notAfter l))"

text \<open>\<open>leafCert ? differenceInDays(leafCert.notAfter, new Date()) : 0\<close>.\<close>

definition daysRemainingOf :: "env \<Rightarrow> 'a CertDetail_p0_scheme option \<Rightarrow> jsnum" where
  "daysRemainingOf E leafCert =
     (case leafCert of
        None \<Rightarrow> Number 0
      | Some l \<Rightarrow> differenceInDays E (notAfter l) (nowReport E))"

subsection \<open>The current validator: pages/Validator.tsx\<close>

definition parseChain :: "env \<Rightarrow> jsval list \<Rightarrow> CertDetail list" where
  "parseChain E certsRaw =
     List.map_filter (\<lambda>(i, c). parseCertificate E c (int i) (int (length certsRaw)))
       (enumerate 0 certsRaw)"

text \<open>\<open>certs.find(c => c.type === 'ROOT') || certs[certs.length - 1]\<close>.\<close>

definition rootCertOf :: "CertDetail list \<Rightarrow> CertDetail option" where
  "rootCertOf certs =
     (case findType ROOT certs of
        Some c \<Rightarrow> Some c
      | None \<Rightarrow> (if certs = [] then None else Some (last certs)))"

text \<open>
  \<open>LEAK_DB.some(s => deviceID.includes(s))\<close>: a text is searched, an array (repeated
  tags) is asked for an equal element, and any other value has no \<open>includes\<close>.
\<close>

definition deviceInLeakDb :: "jsval \<Rightarrow> exn + bool" where
  "deviceInLeakDb d =
     (case d of
        Str s \<Rightarrow> Inr (list_ex (\<lambda>bad. str_includes s bad) LEAK_DB)
      | Arr vs \<Rightarrow> Inr (list_ex (\<lambda>bad. Str bad \<in> set vs) LEAK_DB)
      | _ \<Rightarrow> Inl (TypeError ''deviceID.includes is not a function''))"

text \<open>Lines 244 to 247: the status.\<close>

definition statusOf :: "bool \<Rightarrow> bool \<Rightarrow> jsval \<Rightarrow> bool \<Rightarrow> overallStatus" where
  "statusOf leaked hasExpiredCerts algo hasGoogle =
     (if leaked then REVOKED
      else if hasExpiredCerts then EXPIRED
      else if algo \<noteq> Str ''ECDSA'' \<or> \<not> hasGoogle then WEAK
      else VALID)"

text \<open>Lines 198 to 267: the report on a present keybox \<open>kb\<close>, or what was thrown.\<close>

definition validateKeybox :: "env \<Rightarrow> jsval \<Rightarrow> string \<Rightarrow> exn + CertDetail ValidationReport" where
  "validateKeybox E kb fname =
     (let algo = js_or (getProp kb ''KeyAlgorithm'') (Str ''Unknown'');
          dev = js_or (getProp kb ''DeviceID'') (Str ''Unknown'');
          certsRaw = certsRawOf kb;
          certs = parseChain E certsRaw;
          sortedCerts = sortByType certs;
          leafCert = leafCertOf certs;
          rootCert = rootCertOf certs;
          hasRevokedCerts = list_ex isRevoked certs;
          hasExpiredCerts = list_ex isExpired certs
      in case (if hasRevokedCerts then Inr True else deviceInLeakDb dev) of
           Inl e \<Rightarrow> Inl e
         | Inr leaked \<Rightarrow>
             (let hasGoogle = googleRootOf rootCert;
                  status = statusOf leaked hasExpiredCerts algo hasGoogle
              in case expiresOnOf E leafCert of
                   Inl e \<Rightarrow> Inl e
                 | Inr expires \<Rightarrow>
                     Inr \<lparr> fileName = fname,
                           algorithm = algo,
                           deviceID = dev,
                           certificates = sortedCerts,
                           isValidStructure = True,
                           hasGoogleRoot = hasGoogle,
                           isStrongIntegrityReady = (status = VALID),
                           isLeaked = leaked,
                           seenCount = (if leaked then 999 else 0),
                           overallStatus = status,
                           expiresOn = expires,
                           daysRemaining = daysRemainingOf E leafCert \<rparr>))"

text \<open>
  The body of the \<open>try\<close> block of \<open>validateXML\<close>: the parser throws, or reading a tag
  of \<open>undefined\<close> throws, or the keybox is missing and the validator throws, or the
  keybox is validated.
\<close>

definition validate :: "env \<Rightarrow> string \<Rightarrow> string \<Rightarrow> exn + CertDetail ValidationReport" where
  "validate E content fname =
     (case parse E content of
        Inl e \<Rightarrow> Inl e
      | Inr jsonObj \<Rightarrow>
          if jsonObj = Undefined then Inl (TypeError ''Cannot read properties of undefined'')
          else if \<not> truthy (getProp (getProp jsonObj ''AndroidAttestation'') ''Keybox'')
          then Inl (Error (translate E ''errors.missing_keybox''))
          else validateKeybox E (getProp (getProp jsonObj ''AndroidAttestation'') ''Keybox'') fname)"

text \<open>
  \<open>validateXML\<close>: the report is shown and the text kept, or the \<open>catch\<close> raises one
  alert and leaves the page as it was.
\<close>

definition validateXML :: "env \<Rightarrow> string \<Rightarrow> string \<Rightarrow> CertDetail page \<Rightarrow> CertDetail page" where
  "validateXML E content fname pg =
     (case validate E content fname of
        Inl e \<Rightarrow> pg\<lparr> alerts := alerts pg @ [''Validation Failed: '' @ message e] \<rparr>
      | Inr r \<Rightarrow> pg\<lparr> report := Some r, xmlContent := content \<rparr>)"

subsection \<open>The earlier validator: part_000\<close>

definition parseChain_p0 :: "env \<Rightarrow> jsval list \<Rightarrow> CertDetail_p0 list" where
  "parseChain_p0 E certsRaw =
     List.map_filter (\<lambda>(i, c). parseCertificate_p0 E c (int i) (int (length certsRaw)))
       (enumerate 0 certsRaw)"

text \<open>
  \<open>['android', 'test'].some(s => (kb.DeviceID || '').toLowerCase().includes(s))\<close>:
  only a text has \<open>toLowerCase\<close>.
\<close>

definition deviceFlagged_p0 :: "jsval \<Rightarrow> exn + bool" where
  "deviceFlagged_p0 d =
     (case js_or d (Str []) of
        Str s \<Rightarrow> Inr (list_ex (\<lambda>w. str_includes (toLowerCase s) w) [''android'', ''test''])
      | _ \<Rightarrow> Inl (TypeError ''toLowerCase is not a function''))"

text \<open>Lines 173 to 212: the report on a present keybox \<open>kb\<close>, or what was thrown.\<close>

definition validateKeybox_p0 :: "env \<Rightarrow> jsval \<Rightarrow> string \<Rightarrow> exn + CertDetail_p0 ValidationReport" where
  "validateKeybox_p0 E kb fname =
     (let certsRaw = certsRawOf kb;
          certs = sortByType (parseChain_p0 E certsRaw);
          leafCert = leafCertOf certs;
          rootCert = findType ROOT certs;
          hasRevokedCerts = list_ex isRevoked certs;
          hasExpiredCerts = list_ex isExpired certs
      in case (if hasRevokedCerts then Inr True
               else deviceFlagged_p0 (getProp kb ''DeviceID'')) of
           Inl e \<Rightarrow> Inl e
         | Inr leaked \<Rightarrow>
             (case expiresOnOf E leafCert of
                Inl e \<Rightarrow> Inl e
              | Inr expires \<Rightarrow>
                  Inr \<lparr> fileName = fname,
                        algorithm = js_or (getProp kb ''KeyAlgorithm'') (Str ''Unknown''),
                        deviceID = js_or (getProp kb ''DeviceID'') (Str ''Unknown''),
                        certificates = certs,
                        isValidStructure = True,
                        hasGoogleRoot = googleRootOf rootCert,
                        isStrongIntegrityReady =
                          (googleRootOf rootCert \<and> length certs \<ge> 3 \<and>
                           \<not> hasRevokedCerts \<and> \<not> hasExpiredCerts \<and>
                           getProp kb ''KeyAlgorithm'' = Str ''ECDSA''),
                        isLeaked = leaked,
                        seenCount = (if leaked then 1450 + random500 E else 0),
                        overallStatus =
                          (if leaked then REVOKED
                           else if hasExpiredCerts then EXPIRED else VALID),
                        expiresOn = expires,
                        daysRemaining = daysRemainingOf E leafCert \<rparr>))"

definition validate_p0 :: "env \<Rightarrow> string \<Rightarrow> string \<Rightarrow> exn + CertDetail_p0 ValidationReport" where
  "validate_p0 E content fname =
     (case parse E content of
        Inl e \<Rightarrow> Inl e
      | Inr jsonObj \<Rightarrow>
          if jsonObj = Undefined then Inl (TypeError ''Cannot read properties of undefined'')
          else if \<not> truthy (getProp (getProp jsonObj ''AndroidAttestation'') ''Keybox'')
          then Inl (Error (translate E ''errors.missing_keybox''))
          else validateKeybox_p0 E (getProp (getProp jsonObj ''AndroidAttestation'') ''Keybox'') fname)"

definition validateXML_p0 ::
  "env \<Rightarrow> string \<Rightarrow> string \<Rightarrow> CertDetail_p0 page \<Rightarrow> CertDetail_p0 page" where
  "validateXML_p0 E content fname pg =
     (case validate_p0 E content fname of
        Inl e \<Rightarrow> pg\<lparr> alerts := alerts pg @ [''Validation Failed: '' @ message e] \<rparr>
      | Inr r \<Rightarrow> pg\<lparr> report := Some r, xmlContent := content \<rparr>)"

section \<open>The numeric validator: part_001\<close>

datatype revocationRisk = LOW | MEDIUM | HIGH

datatype expiryStatus = EXPIRY_VALID | EXPIRY_EXPIRED | NEAR_EXPIRY

record ValidationResult =
  valid :: bool
  score :: int
  errors :: "string list"
  warnings :: "string list"
  info :: "(string \<times> jsval) list"
  revocationRisk :: revocationRisk
  expiryStatus :: expiryStatus
  usageEstimate :: string
  strongIntegrityReady :: bool

text \<open>The local variables that \<open>validateXML\<close> updates while it checks the keybox.\<close>

record scoring =
  sc :: int
  ready :: bool
  errs :: "string list"
  warns :: "string list"
  inf :: "(string \<times> jsval) list"

definition isSpace :: "char \<Rightarrow> bool" where
  "isSpace c = (c \<in> set [CHR '' '', CHR 0x09, CHR 0x0A, CHR 0x0B, CHR 0x0C, CHR 0x0D])"

definition trim :: "string \<Rightarrow> string" where
  "trim s = rev (dropWhile isSpace (rev (dropWhile isSpace s)))"

definition digit :: "nat \<Rightarrow> char" where
  "digit d = ''0123456789'' ! d"

fun string_of_nat :: "nat \<Rightarrow> string" where
  "string_of_nat n =
     (if n < 10 then [digit n] else string_of_nat (n div 10) @ [digit (n mod 10)])"

declare string_of_nat.simps [simp del]

definition checkAlgorithm :: "env \<Rightarrow> jsval \<Rightarrow> scoring \<Rightarrow> scoring" where
  "checkAlgorithm E kb a =
     (let v = getProp kb ''KeyAlgorithm''
      in if \<not> truthy v
         then a\<lparr> errs := errs a @ [translate E ''errors.missing_algo''], sc := sc a - 10 \<rparr>
         else
           (let a1 = a\<lparr> inf := inf a @ [(''Algorithm'', v)] \<rparr>
            in if v \<noteq> Str ''ECDSA'' \<and> v \<noteq> Str ''RSA''
               then a1\<lparr> warns := warns a1 @
                          [''Algorithm is non-standard. Play Integrity may reject it.''],
                        sc := sc a1 - 5, ready := False \<rparr>
               else a1))"

definition checkDeviceID :: "env \<Rightarrow> jsval \<Rightarrow> scoring \<Rightarrow> exn + scoring" where
  "checkDeviceID E kb a =
     (let v = getProp kb ''DeviceID''
      in if \<not> truthy v
         then Inr (a\<lparr> errs := errs a @ [translate E ''errors.missing_device_id''],
                      sc := sc a - 20 \<rparr>)
         else
           (case v of
              Str s \<Rightarrow>
                (let a1 = a\<lparr> inf := inf a @ [(''Device ID'', v)] \<rparr>;
                     a2 = (if length s < 8
                           then a1\<lparr> warns := warns a1 @
                                      [''Device ID is unusually short. Potential generic ID.''],
                                    sc := sc a1 - 5 \<rparr>
                           else a1)
                 in if toLowerCase s \<in> set [''123456'', ''deadbeef'', ''pixel5'', ''android'']
                    then Inr (a2\<lparr> errs := errs a2 @
                                   [''Device ID is a known generic placeholder. High ban risk.''],
                                 sc := sc a2 - 30, ready := False \<rparr>)
                    else Inr a2)
            | _ \<Rightarrow> Inl (TypeError ''kb.DeviceID.toLowerCase is not a function'')))"

definition checkPrivateKey :: "env \<Rightarrow> jsval \<Rightarrow> scoring \<Rightarrow> exn + scoring" where
  "checkPrivateKey E kb a =
     (let v = getProp kb ''PrivateKey''
      in if \<not> truthy v
         then Inr (a\<lparr> errs := errs a @ [translate E ''errors.missing_priv_key''],
                      sc := sc a - 20, ready := False \<rparr>)
         else
           (case v of
              Str s \<Rightarrow>
                (if length (trim s) < 100
                 then Inr (a\<lparr> errs := errs a @ [translate E ''errors.key_length''],
                              sc := sc a - 10, ready := False \<rparr>)
                 else Inr a)
            | _ \<Rightarrow> Inl (TypeError ''kb.PrivateKey.trim is not a function'')))"

text \<open>One round of \<open>certs.forEach\<close>, for the certificate \<open>c\<close> at position \<open>i\<close>.\<close>

definition checkCert :: "env \<Rightarrow> scoring \<Rightarrow> nat \<times> jsval \<Rightarrow> scoring" where
  "checkCert E a ic =
     (case ic of (i, c) \<Rightarrow>
        (case decode E c of
           Some parsed \<Rightarrow>
             (if i = 0
              then a\<lparr> inf := inf a @
                        [(''Leaf Cert Serial'',
                          Str (substring (getSerialNumberHex parsed) 0 16 @ ''...'')),
                         (''Leaf Issuer'',
                          js_or (Str (splitComma0 (getIssuerString parsed))) (Str ''Unknown''))] \<rparr>
              else a)
         | None \<Rightarrow>
             a\<lparr> warns := warns a @
                   [''Certificate '' @ string_of_nat (i + 1) @
                    '' could not be parsed. Format may be invalid.''],
                sc := sc a - 5 \<rparr>))"

definition checkChain :: "env \<Rightarrow> jsval \<Rightarrow> scoring \<Rightarrow> scoring" where
  "checkChain E kb a =
     (let cc = getProp kb ''CertificateChain''
      in if \<not> truthy cc \<or> \<not> truthy (getProp cc ''Certificate'')
         then a\<lparr> errs := errs a @ [translate E ''errors.cert_chain_empty''],
                 sc := sc a - 20, ready := False \<rparr>
         else
           (let c = getProp cc ''Certificate'';
                certs = (case c of Arr vs \<Rightarrow> vs | _ \<Rightarrow> [c]);
                a1 = a\<lparr> inf := inf a @
                           [(''Chain Depth'',
                             Str (string_of_nat (length certs) @ '' Certificates''))] \<rparr>;
                a2 = (if length certs < 3
                      then a1\<lparr> warns := warns a1 @
                                 [''Certificate chain is too short (Recommend 3+ for Strong Integrity).''],
                               sc := sc a1 - 10, ready := False \<rparr>
                      else a1)
            in foldl (checkCert E) a2 (enumerate 0 certs)))"

text \<open>What the \<open>catch\<close> block shows.\<close>

definition syntaxErrorResult :: "exn \<Rightarrow> ValidationResult" where
  "syntaxErrorResult e =
     \<lparr> valid = False,
       score = 0,
       errors = [''XML Syntax Error: '' @ message e],
       warnings = [],
       info = [],
       revocationRisk = HIGH,
       expiryStatus = EXPIRY_VALID,
       usageEstimate = ''Unknown'',
       strongIntegrityReady = False \<rparr>"

text \<open>
  Lines 141 to 160: the risk band, the usage estimate and the result. A truthy device id
  that is not a text has thrown before this point, so the entropy is only ever taken of
  a text or of a falsy value.
\<close>

definition finish :: "jsval \<Rightarrow> scoring \<Rightarrow> ValidationResult" where
  "finish kb a =
     (let risk = (if sc a < 60 then HIGH else if sc a < 85 then MEDIUM else LOW);
          entropy = (case getProp kb ''DeviceID'' of
                       Str s \<Rightarrow> length (remdups s)
                     | _ \<Rightarrow> 0);
          usage = (if entropy < 4 then ''High Global Usage (Generic ID)''
                   else if risk = HIGH then ''Flagged / Leaked''
                   else ''Unique (Estimated)'')
      in \<lparr> valid = (errs a = []),
           score = max 0 (sc a),
           errors = errs a,
           warnings = warns a,
           info = inf a,
           revocationRisk = risk,
           expiryStatus = EXPIRY_VALID,
           usageEstimate = usage,
           strongIntegrityReady = ready a \<rparr>)"

text \<open>
  The checks inside the \<open>try\<close> block, from a present keybox on: the result, or what
  was thrown on the way.
\<close>

definition checkKeybox :: "env \<Rightarrow> jsval \<Rightarrow> exn + ValidationResult" where
  "checkKeybox E kb =
     (let a0 = \<lparr> sc = 100, ready = True, errs = [], warns = [], inf = [] \<rparr>;
          a1 = checkAlgorithm E kb a0
      in case checkDeviceID E kb a1 of
           Inl e \<Rightarrow> Inl e
         | Inr a2 \<Rightarrow>
             (case checkPrivateKey E kb a2 of
                Inl e \<Rightarrow> Inl e
              | Inr a3 \<Rightarrow> Inr (finish kb (checkChain E kb a3))))"

text \<open>
  \<open>validateXML\<close> of the numeric validator, on the \<open>result\<close> the page shows: a missing
  attestation root or keybox ends the run before any \<open>setResult\<close>, a present keybox
  sets the scored result, and the \<open>catch\<close> block sets the syntax-error result.
\<close>

definition validateXML_p1 :: "env \<Rightarrow> string \<Rightarrow> ValidationResult option \<Rightarrow> ValidationResult option" where
  "validateXML_p1 E content result =
     (case parse E content of
        Inl e \<Rightarrow> Some (syntaxErrorResult e)
      | Inr jsonObj \<Rightarrow>
          if jsonObj = Undefined
          then Some (syntaxErrorResult (TypeError ''Cannot read properties of undefined''))
          else if \<not> truthy (getProp jsonObj ''AndroidAttestation'') then result
          else if \<not> truthy (getProp (getProp jsonObj ''AndroidAttestation'') ''Keybox'')
          then result
          else
            (case checkKeybox E (getProp (getProp jsonObj ''AndroidAttestation'') ''Keybox'') of
               Inl e \<Rightarrow> Some (syntaxErrorResult e)
             | Inr r \<Rightarrow> Some r))"

section \<open>Example collaborators and documents\<close>

text \<open>
  A small world to run the validators in: a decoder that knows five certificates (and
  fails on anything else), a \<open>Date\<close> constructor that knows three days, a clock fixed at
  2 November 2026, and a parser given by a table of documents.
\<close>

definition leafX509 :: X509 where
  "leafX509 =
     \<lparr> getNotAfter = ''301231235959Z'', getNotBefore = ''200101000000Z'',
       getSerialNumberHex = ''01a2'', getIssuerString = ''/CN=Intermediate CA'',
       getSubjectString = ''/CN=Leaf'', hex = ''3082aa'',
       getSignatureAlgorithmField = ''SHA256withECDSA'' \<rparr>"

definition midX509 :: X509 where
  "midX509 =
     \<lparr> getNotAfter = ''301231235959Z'', getNotBefore = ''200101000000Z'',
       getSerialNumberHex = ''02b3'', getIssuerString = ''/CN=Google Hardware Attestation Root'',
       getSubjectString = ''/CN=Intermediate CA'', hex = ''3082bb'',
       getSignatureAlgorithmField = ''SHA256withECDSA'' \<rparr>"

definition googleRootX509 :: X509 where
  "googleRootX509 =
     \<lparr> getNotAfter = ''20400101000000Z'', getNotBefore = ''20200101000000Z'',
       getSerialNumberHex = ''03c4'', getIssuerString = ''/CN=Google Hardware Attestation Root'',
       getSubjectString = ''/CN=Google Hardware Attestation Root'', hex = ''3082cc'',
       getSignatureAlgorithmField = ''SHA256withRSA'' \<rparr>"

definition vendorMidX509 :: X509 where
  "vendorMidX509 =
     \<lparr> getNotAfter = ''301231235959Z'', getNotBefore = ''200101000000Z'',
       getSerialNumberHex = ''04d5'', getIssuerString = ''/CN=Vendor Root CA'',
       getSubjectString = ''/CN=Vendor Intermediate'', hex = ''3082dd'',
       getSignatureAlgorithmField = ''SHA256withECDSA'' \<rparr>"

definition vendorRootX509 :: X509 where
  "vendorRootX509 =
     \<lparr> getNotAfter = ''20400101000000Z'', getNotBefore = ''20200101000000Z'',
       getSerialNumberHex = ''05e6'', getIssuerString = ''/CN=Vendor Root CA'',
       getSubjectString = ''/CN=Vendor Root CA'', hex = ''3082ee'',
       getSignatureAlgorithmField = ''SHA256withECDSA'' \<rparr>"

definition exampleDecode :: "jsval \<Rightarrow> X509 option" where
  "exampleDecode pem =
     map_of [(Str ''LEAF'', leafX509), (Str ''MID'', midX509), (Str ''GROOT'', googleRootX509),
             (Str ''VMID'', vendorMidX509), (Str ''VROOT'', vendorRootX509)] pem"

definition exampleKeybox :: "string \<Rightarrow> string \<Rightarrow> jsval \<Rightarrow> jsval" where
  "exampleKeybox alg dev certs =
     Obj [(''AndroidAttestation'',
           Obj [(''NumberOfKeyboxes'', Num 1),
                (''Keybox'',
                 Obj [(''DeviceID'', Str dev),
                      (''KeyAlgorithm'', Str alg),
                      (''PrivateKey'', Str (replicate 120 (CHR ''k''))),
                      (''CertificateChain'',
                       Obj [(''NumberOfCertificates'', Num 3),
                            (''Certificate'', certs)])])])]"

definition exampleNoChain :: jsval where
  "exampleNoChain =
     Obj [(''AndroidAttestation'',
           Obj [(''NumberOfKeyboxes'', Num 1),
                (''Keybox'',
                 Obj [(''DeviceID'', Str ''mydevice1234''),
                      (''KeyAlgorithm'', Str ''ECDSA''),
                      (''PrivateKey'', Str (replicate 120 (CHR ''k'')))])])]"

text \<open>
  The same keybox with the device id \<open>12345678\<close>, which the parser hands over as a
  number.
\<close>

definition exampleDigits :: jsval where
  "exampleDigits =
     Obj [(''AndroidAttestation'',
           Obj [(''NumberOfKeyboxes'', Num 1),
                (''Keybox'',
                 Obj [(''DeviceID'', Num 12345678),
                      (''KeyAlgorithm'', Str ''ECDSA''),
                      (''PrivateKey'', Str (replicate 120 (CHR ''k'')))])])]"

definition exampleDocs :: "(string \<times> jsval) list" where
  "exampleDocs =
     [(''<rsa/>'',
       exampleKeybox ''RSA'' ''mydevice1234'' (Arr [Str ''LEAF'', Str ''MID'', Str ''GROOT''])),
      (''<ecdsa/>'',
       exampleKeybox ''ECDSA'' ''mydevice1234'' (Arr [Str ''LEAF'', Str ''MID'', Str ''GROOT''])),
      (''<test/>'',
       exampleKeybox ''ECDSA'' ''test_device_01'' (Arr [Str ''LEAF'', Str ''MID'', Str ''GROOT''])),
      (''<android/>'',
       exampleKeybox ''ECDSA'' ''android_test_device''
         (Arr [Str ''LEAF'', Str ''MID'', Str ''GROOT''])),
      (''<rsa-deadbeef/>'',
       exampleKeybox ''RSA'' ''xx-deadbeef-01'' (Arr [Str ''LEAF'', Str ''MID'', Str ''GROOT''])),
      (''<deadbeef/>'',
       exampleKeybox ''ECDSA'' ''xx-deadbeef-01'' (Arr [Str ''LEAF'', Str ''MID'', Str ''GROOT''])),
      (''<broken/>'',
       exampleKeybox ''ECDSA'' ''mydevice1234'' (Arr [Str ''BROKEN'', Str ''VMID'', Str ''VROOT''])),
      (''<single/>'', exampleKeybox ''ECDSA'' ''mydevice1234'' (Str ''GROOT'')),
      (''<nochain/>'', exampleNoChain),
      (''<digits/>'', exampleDigits),
      (''<nokeybox/>'', Obj [(''AndroidAttestation'', Obj [(''NumberOfKeyboxes'', Num 0)])]),
      (''<other/>'', Obj [(''Other'', Str [])])]"

definition exampleEnv :: env where
  "exampleEnv =
     \<lparr> parse = (\<lambda>content. case map_of exampleDocs content of
                             Some doc \<Rightarrow> Inr doc
                           | None \<Rightarrow> Inl (SyntaxError ''Unclosed tag'')),
       decode = exampleDecode,
       hashHex = (\<lambda>h. h @ ''00''),
       newDate = map_of [(''2020-01-01'', 1577836800000), (''2030-12-31'', 1924905600000),
                         (''2040-01-01'', 2208988800000)],
       nowCert = (\<lambda>i. 1793577600000),
       nowReport = 1793577600000,
       formatDate = (\<lambda>d. case d of
                             None \<Rightarrow> Inl (RangeError ''Invalid time value'')
                           | Some t \<Rightarrow> Inr (if t = 1924905600000 then ''Dec 31, 2030''
                                            else if t = 2208988800000 then ''Jan 01, 2040''
                                            else ''Jan 01, 2020'')),
       differenceInDays = (\<lambda>d now. case d of
                                      None \<Rightarrow> NaN
                                    | Some t \<Rightarrow> Number (if now \<le> t then (t - now) div 86400000
                                                        else - ((now - t) div 86400000))),
       translate = (\<lambda>k. k),
       random500 = 7 \<rparr>"

definition emptyPage :: "'c page" where
  "emptyPage = \<lparr> report = None, xmlContent = [], alerts = [] \<rparr>"

text \<open>Each validator run once on an example document, from a page that shows nothing.\<close>

definition runExample :: "string \<Rightarrow> CertDetail page" where
  "runExample content = validateXML exampleEnv content ''keybox.xml'' emptyPage"

definition runExample_p0 :: "string \<Rightarrow> CertDetail_p0 page" where
  "runExample_p0 content = validateXML_p0 exampleEnv content ''keybox.xml'' emptyPage"

definition runExample_p1 :: "string \<Rightarrow> ValidationResult option" where
  "runExample_p1 content = validateXML_p1 exampleEnv content None"

section \<open>Facts about the string operations\<close>

lemma startsWith_iff: "startsWith s p \<longleftrightarrow> (\<exists>b. s = p @ b)"
  by (induction s p rule: startsWith.induct) auto

text \<open>\<open>str_includes s p\<close> says that \<open>p\<close> occurs in \<open>s\<close> as a contiguous piece.\<close>

lemma str_includes_iff: "str_includes s p \<longleftrightarrow> (\<exists>a b. s = a @ p @ b)"
proof (induction s)
  case Nil
  then show ?case by auto
next
  case (Cons c cs)
  show ?case
  proof
    assume "str_includes (c # cs) p"
    then consider "startsWith (c # cs) p" | "str_includes cs p" by auto
    then show "\<exists>a b. c # cs = a @ p @ b"
    proof cases
      case 1
      then obtain b where "c # cs = p @ b" by (auto simp: startsWith_iff)
      then have "c # cs = [] @ p @ b" by simp
      then show ?thesis by blast
    next
      case 2
      then obtain a b where "cs = a @ p @ b" using Cons.IH by blast
      then have "c # cs = (c # a) @ p @ b" by simp
      then show ?thesis by blast
    qed
  next
    assume "\<exists>a b. c # cs = a @ p @ b"
    then obtain a b where ab: "c # cs = a @ p @ b" by blast
    show "str_includes (c # cs) p"
    proof (cases a)
      case Nil
      with ab have "startsWith (c # cs) p" by (auto simp: startsWith_iff)
      then show ?thesis by simp
    next
      case (Cons x a')
      with ab have "cs = a' @ p @ b" by simp
      then have "str_includes cs p" using Cons.IH by blast
      then show ?thesis by simp
    qed
  qed
qed

lemma substring_le: "a \<le> b \<Longrightarrow> substring s a b = take (b - a) (drop a s)"
  by (simp add: substring_def min_def max_def)

section \<open>Validity dates\<close>

text \<open>
  C9. \<open>parseDate\<close> reads a decoder date by its length alone. A text of length 13 gives
  the year as \<open>20\<close> followed by its first two characters, the month as characters 2-3
  and the day as characters 4-5; any other text gives the year as its first four
  characters, the month as characters 4-5 and the day as characters 6-7. The three pieces,
  joined by hyphens, are what the \<open>Date\<close> constructor receives; no other century is
  ever inferred.
\<close>

theorem parseDate_by_length:
  "parseDate E s =
     newDate E
       ((if length s = 13 then ''20'' @ take 2 s else take 4 s) @ ''-'' @
        (if length s = 13 then take 2 (drop 2 s) else take 2 (drop 4 s)) @ ''-'' @
        (if length s = 13 then take 2 (drop 4 s) else take 2 (drop 6 s)))"
  by (simp add: parseDate_def Let_def substring_le)

theorem parseDate_by_length_witness:
  "parseDate exampleEnv ''301231235959Z'' = newDate exampleEnv ''2030-12-31'' \<and>
   parseDate exampleEnv ''20400101000000Z'' = newDate exampleEnv ''2040-01-01'' \<and>
   parseDate exampleEnv ''991231235959Z'' = newDate exampleEnv ''2099-12-31''"
  using parseDate_by_length [of exampleEnv "''301231235959Z''"]
    parseDate_by_length [of exampleEnv "''20400101000000Z''"]
    parseDate_by_length [of exampleEnv "''991231235959Z''"]
  by simp

section \<open>What a produced report holds\<close>

text \<open>
  A report of the current validator exists only for a parsed document with a truthy
  keybox, and each of its fields is the value computed from that keybox.
\<close>

lemma validate_InrD:
  assumes "validate E c f = Inr r"
  obtains doc where "parse E c = Inr doc" "doc \<noteq> Undefined"
    "truthy (getProp (getProp doc ''AndroidAttestation'') ''Keybox'')"
    "validateKeybox E (getProp (getProp doc ''AndroidAttestation'') ''Keybox'') f = Inr r"
  using assms
  by (auto simp: validate_def split: sum.splits if_splits)

lemma validateKeybox_InrD:
  assumes "validateKeybox E kb f = Inr r"
  shows "certificates r = sortByType (parseChain E (certsRawOf kb))"
    and "algorithm r = js_or (getProp kb ''KeyAlgorithm'') (Str ''Unknown'')"
    and "deviceID r = js_or (getProp kb ''DeviceID'') (Str ''Unknown'')"
    and "(if list_ex isRevoked (parseChain E (certsRawOf kb)) then Inr True
          else deviceInLeakDb (deviceID r)) = Inr (isLeaked r)"
    and "hasGoogleRoot r = googleRootOf (rootCertOf (parseChain E (certsRawOf kb)))"
    and "overallStatus r =
           statusOf (isLeaked r) (list_ex isExpired (parseChain E (certsRawOf kb)))
             (algorithm r) (hasGoogleRoot r)"
    and "isStrongIntegrityReady r = (overallStatus r = VALID)"
    and "expiresOnOf E (leafCertOf (parseChain E (certsRawOf kb))) = Inr (expiresOn r)"
    and "daysRemaining r = daysRemainingOf E (leafCertOf (parseChain E (certsRawOf kb)))"
  using assms
  by (auto simp: validateKeybox_def Let_def split: sum.splits if_splits)

text \<open>The same for the earlier validator, whose certificate list is sorted in place.\<close>

lemma validate_p0_InrD:
  assumes "validate_p0 E c f = Inr r"
  obtains doc where "parse E c = Inr doc" "doc \<noteq> Undefined"
    "truthy (getProp (getProp doc ''AndroidAttestation'') ''Keybox'')"
    "validateKeybox_p0 E (getProp (getProp doc ''AndroidAttestation'') ''Keybox'') f = Inr r"
  using assms
  by (auto simp: validate_p0_def split: sum.splits if_splits)

lemma validateKeybox_p0_InrD:
  assumes "validateKeybox_p0 E kb f = Inr r"
  shows "certificates r = sortByType (parseChain_p0 E (certsRawOf kb))"
    and "algorithm r = js_or (getProp kb ''KeyAlgorithm'') (Str ''Unknown'')"
    and "deviceID r = js_or (getProp kb ''DeviceID'') (Str ''Unknown'')"
    and "(if list_ex isRevoked (certificates r) then Inr True
          else deviceFlagged_p0 (getProp kb ''DeviceID'')) = Inr (isLeaked r)"
    and "hasGoogleRoot r = googleRootOf (findType ROOT (certificates r))"
    and "overallStatus r =
           (if isLeaked r then REVOKED
            else if list_ex isExpired (certificates r) then EXPIRED else VALID)"
    and "isStrongIntegrityReady r =
           (hasGoogleRoot r \<and> length (certificates r) \<ge> 3 \<and>
            \<not> list_ex isRevoked (certificates r) \<and> \<not> list_ex isExpired (certificates r) \<and>
            getProp kb ''KeyAlgorithm'' = Str ''ECDSA'')"
    and "expiresOnOf E (leafCertOf (certificates r)) = Inr (expiresOn r)"
    and "daysRemaining r = daysRemainingOf E (leafCertOf (certificates r))"
  using assms
  by (auto simp: validateKeybox_p0_def Let_def split: sum.splits if_splits)

lemma set_sortByType: "set (sortByType cs) = set cs"
  by (simp add: sortByType_def)

lemma algo_ECDSA_iff: "js_or v (Str ''Unknown'') = Str ''ECDSA'' \<longleftrightarrow> v = Str ''ECDSA''"
  by (auto simp: js_or_def)

text \<open>The example runs, as results of the \<open>try\<close> block.\<close>

lemma validate_rsa:
  "validate exampleEnv ''<rsa/>'' ''keybox.xml'' = Inr (the (report (runExample ''<rsa/>'')))"
  by code_simp

lemma validate_ecdsa:
  "validate exampleEnv ''<ecdsa/>'' ''keybox.xml'' = Inr (the (report (runExample ''<ecdsa/>'')))"
  by code_simp

lemma validate_p0_rsa:
  "validate_p0 exampleEnv ''<rsa/>'' ''keybox.xml'' =
     Inr (the (report (runExample_p0 ''<rsa/>'')))"
  by code_simp

lemma validate_p0_ecdsa:
  "validate_p0 exampleEnv ''<ecdsa/>'' ''keybox.xml'' =
     Inr (the (report (runExample_p0 ''<ecdsa/>'')))"
  by code_simp

section \<open>Status of a report\<close>

text \<open>
  C1, as the code has it. In the current validator (pages/Validator.tsx) the status of
  every produced report follows the precedence: leaked gives REVOKED; else an expired
  certificate gives EXPIRED; else an algorithm other than ECDSA or no Google root gives
  WEAK; else VALID. So an RSA keybox that is not leaked and has no expired certificate
  is WEAK. In the earlier validator (part_000) there is no WEAK tier: leaked gives
  REVOKED, else an expired certificate gives EXPIRED, else VALID.
\<close>

theorem status_precedence:
  "(validate E c f = Inr r \<longrightarrow>
      overallStatus r =
        (if isLeaked r then REVOKED
         else if (\<exists>x \<in> set (certificates r). isExpired x) then EXPIRED
         else if algorithm r \<noteq> Str ''ECDSA'' \<or> \<not> hasGoogleRoot r then WEAK
         else VALID)) \<and>
   (validate E c f = Inr r \<and> algorithm r = Str ''RSA'' \<and> \<not> isLeaked r \<and>
    (\<forall>x \<in> set (certificates r). \<not> isExpired x) \<longrightarrow> overallStatus r = WEAK) \<and>
   (validate_p0 E c f = Inr r0 \<longrightarrow>
      overallStatus r0 =
        (if isLeaked r0 then REVOKED
         else if (\<exists>x \<in> set (certificates r0). isExpired x) then EXPIRED
         else VALID))"
proof -
  have A: "overallStatus r =
        (if isLeaked r then REVOKED
         else if (\<exists>x \<in> set (certificates r). isExpired x) then EXPIRED
         else if algorithm r \<noteq> Str ''ECDSA'' \<or> \<not> hasGoogleRoot r then WEAK
         else VALID)" if "validate E c f = Inr r"
  proof -
    from that obtain doc where
      "validateKeybox E (getProp (getProp doc ''AndroidAttestation'') ''Keybox'') f = Inr r"
      by (rule validate_InrD)
    from validateKeybox_InrD(1,6) [OF this] show ?thesis
      by (simp add: statusOf_def list_ex_iff set_sortByType)
  qed
  have B: "overallStatus r0 =
        (if isLeaked r0 then REVOKED
         else if (\<exists>x \<in> set (certificates r0). isExpired x) then EXPIRED
         else VALID)" if "validate_p0 E c f = Inr r0"
  proof -
    from that obtain doc where
      "validateKeybox_p0 E (getProp (getProp doc ''AndroidAttestation'') ''Keybox'') f = Inr r0"
      by (rule validate_p0_InrD)
    from validateKeybox_p0_InrD(6) [OF this] show ?thesis
      by (simp add: list_ex_iff)
  qed
  from A B show ?thesis by simp
qed

text \<open>
  The example RSA keybox with the Google-rooted chain of three: the current validator
  reports WEAK, the earlier one VALID.
\<close>

theorem status_precedence_witness:
  "map_option overallStatus (report (runExample ''<rsa/>'')) = Some WEAK \<and>
   map_option overallStatus (report (runExample_p0 ''<rsa/>'')) = Some VALID"
proof -
  let ?p = "the (report (runExample ''<rsa/>''))"
  let ?q = "the (report (runExample_p0 ''<rsa/>''))"
  have facts: "algorithm ?p = Str ''RSA''" "\<not> isLeaked ?p"
    "map isExpired (certificates ?p) = [False, False, False]"
    "\<not> isLeaked ?q" "map isExpired (certificates ?q) = [False, False, False]"
    by code_simp+
  have e: "\<forall>x \<in> set (certificates ?p). \<not> isExpired x"
    "\<not> (\<exists>x \<in> set (certificates ?q). isExpired x)"
    using facts(3,5) by (auto simp: map_eq_Cons_conv)
  have some: "report (runExample ''<rsa/>'') = Some ?p"
    "report (runExample_p0 ''<rsa/>'') = Some ?q"
    by code_simp+
  from status_precedence [of exampleEnv "''<rsa/>''" "''keybox.xml''" ?p ?q]
    validate_rsa validate_p0_rsa facts(1,2,4) e
  have "overallStatus ?p = WEAK" "overallStatus ?q = VALID" by simp_all
  then have "map_option overallStatus (Some ?p) = Some WEAK \<and>
    map_option overallStatus (Some ?q) = Some VALID" by simp
  then show ?thesis unfolding some [symmetric] .
qed

text \<open>
  C1 as stated fails on the earlier validator: the example keybox has algorithm RSA, a
  Google root, no expired or revoked certificate and no leak, and its status is VALID,
  not WEAK. Its last sentence also fails on the current validator when the device id is
  in \<open>LEAK_DB\<close>: the example RSA keybox of \<open>xx-deadbeef-01\<close> has a Google root and no
  expired or revoked certificate, and its status is REVOKED.
\<close>

theorem status_precedence_counterexample:
  "map_option algorithm (report (runExample_p0 ''<rsa/>'')) = Some (Str ''RSA'') \<and>
   map_option hasGoogleRoot (report (runExample_p0 ''<rsa/>'')) = Some True \<and>
   map_option isLeaked (report (runExample_p0 ''<rsa/>'')) = Some False \<and>
   map_option (map isExpired \<circ> certificates) (report (runExample_p0 ''<rsa/>'')) =
     Some [False, False, False] \<and>
   map_option (map isRevoked \<circ> certificates) (report (runExample_p0 ''<rsa/>'')) =
     Some [False, False, False] \<and>
   map_option overallStatus (report (runExample_p0 ''<rsa/>'')) = Some VALID \<and>
   map_option algorithm (report (runExample ''<rsa-deadbeef/>'')) = Some (Str ''RSA'') \<and>
   map_option hasGoogleRoot (report (runExample ''<rsa-deadbeef/>'')) = Some True \<and>
   map_option (map isExpired \<circ> certificates) (report (runExample ''<rsa-deadbeef/>'')) =
     Some [False, False, False] \<and>
   map_option (map isRevoked \<circ> certificates) (report (runExample ''<rsa-deadbeef/>'')) =
     Some [False, False, False] \<and>
   map_option overallStatus (report (runExample ''<rsa-deadbeef/>'')) = Some REVOKED"
  by code_simp

section \<open>Strong integrity\<close>

text \<open>
  C3, as the code has it. In the current validator \<open>isStrongIntegrityReady\<close> is true
  exactly when the status is VALID. In the earlier validator it is true exactly when the
  report has a Google root, at least three certificates, none of them revoked or
  expired, and the algorithm ECDSA; the status is not consulted.
\<close>

theorem strong_integrity_ready:
  "(validate E c f = Inr r \<longrightarrow> isStrongIntegrityReady r = (overallStatus r = VALID)) \<and>
   (validate_p0 E c f = Inr r0 \<longrightarrow>
      isStrongIntegrityReady r0 =
        (hasGoogleRoot r0 \<and> length (certificates r0) \<ge> 3 \<and>
         (\<forall>x \<in> set (certificates r0). \<not> isRevoked x \<and> \<not> isExpired x) \<and>
         algorithm r0 = Str ''ECDSA''))"
proof -
  have A: "isStrongIntegrityReady r = (overallStatus r = VALID)" if "validate E c f = Inr r"
  proof -
    from that obtain doc where
      "validateKeybox E (getProp (getProp doc ''AndroidAttestation'') ''Keybox'') f = Inr r"
      by (rule validate_InrD)
    from validateKeybox_InrD(7) [OF this] show ?thesis .
  qed
  have B: "isStrongIntegrityReady r0 =
        (hasGoogleRoot r0 \<and> length (certificates r0) \<ge> 3 \<and>
         (\<forall>x \<in> set (certificates r0). \<not> isRevoked x \<and> \<not> isExpired x) \<and>
         algorithm r0 = Str ''ECDSA'')" if "validate_p0 E c f = Inr r0"
  proof -
    from that obtain doc where
      "validateKeybox_p0 E (getProp (getProp doc ''AndroidAttestation'') ''Keybox'') f = Inr r0"
      by (rule validate_p0_InrD)
    from validateKeybox_p0_InrD(2,7) [OF this] show ?thesis
      by (auto simp: list_ex_iff algo_ECDSA_iff)
  qed
  from A B show ?thesis by simp
qed

text \<open>The example ECDSA keybox: VALID and ready in the current validator, ready in the earlier.\<close>

theorem strong_integrity_ready_witness:
  "map_option overallStatus (report (runExample ''<ecdsa/>'')) = Some VALID \<and>
   map_option isStrongIntegrityReady (report (runExample ''<ecdsa/>'')) = Some True \<and>
   map_option isStrongIntegrityReady (report (runExample_p0 ''<ecdsa/>'')) = Some True"
proof -
  let ?p = "the (report (runExample ''<ecdsa/>''))"
  let ?q = "the (report (runExample_p0 ''<ecdsa/>''))"
  have facts: "overallStatus ?p = VALID" "hasGoogleRoot ?q" "length (certificates ?q) = 3"
    "map isExpired (certificates ?q) = [False, False, False]"
    "map isRevoked (certificates ?q) = [False, False, False]"
    "algorithm ?q = Str ''ECDSA''"
    by code_simp+
  have e: "\<forall>x \<in> set (certificates ?q). \<not> isRevoked x \<and> \<not> isExpired x"
    using facts(4,5) by (auto simp: map_eq_Cons_conv)
  have some: "report (runExample ''<ecdsa/>'') = Some ?p"
    "report (runExample_p0 ''<ecdsa/>'') = Some ?q"
    by code_simp+
  from strong_integrity_ready [of exampleEnv "''<ecdsa/>''" "''keybox.xml''" ?p ?q]
    validate_ecdsa validate_p0_ecdsa facts(1,2,3,6) e
  have "isStrongIntegrityReady ?p" "isStrongIntegrityReady ?q" by simp_all
  with facts(1) have "map_option overallStatus (Some ?p) = Some VALID \<and>
    map_option isStrongIntegrityReady (Some ?p) = Some True \<and>
    map_option isStrongIntegrityReady (Some ?q) = Some True" by simp
  then show ?thesis unfolding some [symmetric] .
qed

text \<open>
  C3 as stated fails on the earlier validator, in both directions: the example keybox
  with the device id \<open>test_device_01\<close> is ready for strong integrity while its status is
  REVOKED, and the example RSA keybox has status VALID while it is not ready.
\<close>

theorem strong_integrity_ready_counterexample:
  "map_option isStrongIntegrityReady (report (runExample_p0 ''<test/>'')) = Some True \<and>
   map_option overallStatus (report (runExample_p0 ''<test/>'')) = Some REVOKED \<and>
   map_option isStrongIntegrityReady (report (runExample_p0 ''<rsa/>'')) = Some False \<and>
   map_option overallStatus (report (runExample_p0 ''<rsa/>'')) = Some VALID"
  by code_simp

section \<open>Roles in the chain\<close>

text \<open>
  C2, as the code has it. In the current validator the role of a decoded certificate is
  fixed by four rules, the first that applies: (1) issuer equal to subject and issuer
  containing \<open>google\<close> in any letter case gives ROOT at any position; (2) else position
  0 gives END_ENTITY; (3) else the last position gives ROOT; (4) else INTERMEDIATE. So
  the single certificate of a chain of length 1 is END_ENTITY unless rule 1 makes it
  ROOT. In the earlier validator the rules are: an issuer containing \<open>google\<close> at a
  position after the first gives ROOT; else the last position gives ROOT; else position
  0 gives END_ENTITY; else INTERMEDIATE; there the single certificate of a chain of
  length 1 is always ROOT.
\<close>

theorem certType_rules:
  assumes "decode E pem = Some x"
  shows "map_option ctype (parseCertificate E pem idx tot) =
           Some (if getIssuerString x = getSubjectString x \<and>
                    (\<exists>a b. toLowerCase (getIssuerString x) = a @ ''google'' @ b) then ROOT
                 else if idx = 0 then END_ENTITY
                 else if idx = tot - 1 then ROOT
                 else INTERMEDIATE) \<and>
         map_option ctype (parseCertificate E pem 0 1) =
           Some (if getIssuerString x = getSubjectString x \<and>
                    (\<exists>a b. toLowerCase (getIssuerString x) = a @ ''google'' @ b) then ROOT
                 else END_ENTITY) \<and>
         map_option ctype (parseCertificate_p0 E pem idx tot) =
           Some (if (\<exists>a b. toLowerCase (getIssuerString x) = a @ ''google'' @ b) \<and> idx > 0
                 then ROOT
                 else if idx = tot - 1 then ROOT
                 else if idx = 0 then END_ENTITY
                 else INTERMEDIATE) \<and>
         map_option ctype (parseCertificate_p0 E pem 0 1) = Some ROOT"
proof -
  let ?g = "str_includes (toLowerCase (getIssuerString x)) ''google''"
  have "map_option ctype (parseCertificate E pem idx tot) =
           Some (if getIssuerString x = getSubjectString x \<and> ?g then ROOT
                 else if idx = 0 then END_ENTITY
                 else if idx = tot - 1 then ROOT
                 else INTERMEDIATE) \<and>
         map_option ctype (parseCertificate E pem 0 1) =
           Some (if getIssuerString x = getSubjectString x \<and> ?g then ROOT
                 else END_ENTITY) \<and>
         map_option ctype (parseCertificate_p0 E pem idx tot) =
           Some (if ?g \<and> idx > 0 then ROOT
                 else if idx = tot - 1 then ROOT
                 else if idx = 0 then END_ENTITY
                 else INTERMEDIATE) \<and>
         map_option ctype (parseCertificate_p0 E pem 0 1) = Some ROOT"
    using assms
    by (auto simp: parseCertificate_def parseCertificate_p0_def Let_def certTypeOf_def
        certTypeOf_p0_def)
  then show ?thesis unfolding str_includes_iff .
qed

text \<open>The example leaf: END_ENTITY at position 0 of three and alone; ROOT alone in part_000.\<close>

theorem certType_rules_witness:
  "map_option ctype (parseCertificate exampleEnv (Str ''LEAF'') 0 3) = Some END_ENTITY \<and>
   map_option ctype (parseCertificate exampleEnv (Str ''LEAF'') 0 1) = Some END_ENTITY \<and>
   map_option ctype (parseCertificate_p0 exampleEnv (Str ''LEAF'') 0 1) = Some ROOT"
proof -
  have d: "decode exampleEnv (Str ''LEAF'') = Some leafX509"
    by (simp add: exampleEnv_def exampleDecode_def)
  have g: "\<not> str_includes (toLowerCase (getIssuerString leafX509)) ''google''"
    by code_simp
  from certType_rules [OF d, of 0 3] g show ?thesis
    by (simp add: str_includes_iff [symmetric] leafX509_def)
qed

text \<open>
  C2 as stated fails in its last sentence: a chain of the one self-signed Google root is
  classified ROOT by rule 1, not END_ENTITY, in the current validator.
\<close>

theorem certType_rules_counterexample:
  "map_option ctype (parseCertificate exampleEnv (Str ''GROOT'') 0 1) = Some ROOT \<and>
   map_option (map ctype \<circ> certificates) (report (runExample ''<single/>'')) = Some [ROOT]"
  by code_simp

section \<open>Input that cannot be parsed\<close>

text \<open>
  C4, as the code has it. When the parser throws on the raw text, both categorical
  validators raise exactly one alert, \<open>Validation Failed: \<close> followed by the parser's
  message, and leave the report of the page as it was: no report is produced. The
  numeric validator (part_001) does produce a result from its \<open>catch\<close> block: invalid,
  score 0, the single error \<open>XML Syntax Error: \<close> followed by the parser's message,
  no warnings, no info, HIGH risk, and not ready for strong integrity.
\<close>

theorem unparsable_input:
  assumes "parse E content = Inl e"
  shows "validate E content f = Inl e \<and>
         validateXML E content f pg =
           pg\<lparr> alerts := alerts pg @ [''Validation Failed: '' @ message e] \<rparr> \<and>
         report (validateXML E content f pg) = report pg \<and>
         validate_p0 E content f = Inl e \<and>
         validateXML_p0 E content f pg0 =
           pg0\<lparr> alerts := alerts pg0 @ [''Validation Failed: '' @ message e] \<rparr> \<and>
         report (validateXML_p0 E content f pg0) = report pg0 \<and>
         validateXML_p1 E content res =
           Some \<lparr> valid = False, score = 0, errors = [''XML Syntax Error: '' @ message e],
                  warnings = [], info = [], revocationRisk = HIGH,
                  expiryStatus = EXPIRY_VALID, usageEstimate = ''Unknown'',
                  strongIntegrityReady = False \<rparr>"
  using assms
  by (simp add: validate_def validateXML_def validate_p0_def validateXML_p0_def
      validateXML_p1_def syntaxErrorResult_def)

text \<open>The example parser rejects the text \<open><unclosed\<close>.\<close>

theorem unparsable_input_witness:
  "parse exampleEnv ''<unclosed'' = Inl (SyntaxError ''Unclosed tag'') \<and>
   runExample ''<unclosed'' =
     \<lparr> report = None, xmlContent = [], alerts = [''Validation Failed: Unclosed tag''] \<rparr> \<and>
   runExample_p0 ''<unclosed'' =
     \<lparr> report = None, xmlContent = [], alerts = [''Validation Failed: Unclosed tag''] \<rparr> \<and>
   runExample_p1 ''<unclosed'' =
     Some \<lparr> valid = False, score = 0, errors = [''XML Syntax Error: Unclosed tag''],
            warnings = [], info = [], revocationRisk = HIGH,
            expiryStatus = EXPIRY_VALID, usageEstimate = ''Unknown'',
            strongIntegrityReady = False \<rparr>"
proof -
  have h: "parse exampleEnv ''<unclosed'' = Inl (SyntaxError ''Unclosed tag'')"
    by code_simp
  from unparsable_input [OF h, of "''keybox.xml''" emptyPage emptyPage None] h
  show ?thesis
    by (simp add: runExample_def runExample_p0_def runExample_p1_def emptyPage_def)
qed

text \<open>
  C4 as stated fails for the numeric strategy: on the unparsable text a result is
  returned to the page.
\<close>

theorem unparsable_input_counterexample:
  "runExample_p1 ''<unclosed'' \<noteq> None \<and>
   map_option score (runExample_p1 ''<unclosed'') = Some 0 \<and>
   map_option valid (runExample_p1 ''<unclosed'') = Some False \<and>
   map_option errors (runExample_p1 ''<unclosed'') = Some [''XML Syntax Error: Unclosed tag'']"
  by code_simp

section \<open>A document without the keybox\<close>

text \<open>
  C5, as the code has it. When the parsed tree lacks the attestation container or the
  keybox, both categorical validators throw the missing-keybox error, raise one alert
  with its message and leave the report of the page as it was: no report is produced,
  and no report that is produced ever has the status INVALID.
\<close>

theorem absent_keybox:
  "(parse E c = Inr doc \<and>
    (\<not> truthy (getProp doc ''AndroidAttestation'') \<or>
     \<not> truthy (getProp (getProp doc ''AndroidAttestation'') ''Keybox'')) \<longrightarrow>
      validateXML E c f pg =
        pg\<lparr> alerts := alerts pg @
               [''Validation Failed: '' @
                (if doc = Undefined then ''Cannot read properties of undefined''
                 else translate E ''errors.missing_keybox'')] \<rparr> \<and>
      report (validateXML E c f pg) = report pg \<and>
      validateXML_p0 E c f pg0 =
        pg0\<lparr> alerts := alerts pg0 @
                [''Validation Failed: '' @
                 (if doc = Undefined then ''Cannot read properties of undefined''
                  else translate E ''errors.missing_keybox'')] \<rparr> \<and>
      report (validateXML_p0 E c f pg0) = report pg0) \<and>
   (validate E c f = Inr r \<longrightarrow> overallStatus r \<noteq> INVALID) \<and>
   (validate_p0 E c f = Inr r0 \<longrightarrow> overallStatus r0 \<noteq> INVALID)"
proof -
  have K: "\<not> truthy (getProp (getProp doc ''AndroidAttestation'') ''Keybox'')"
    if "\<not> truthy (getProp doc ''AndroidAttestation'') \<or>
        \<not> truthy (getProp (getProp doc ''AndroidAttestation'') ''Keybox'')"
    using that by (cases "getProp doc ''AndroidAttestation''") auto
  have A: "overallStatus r \<noteq> INVALID" if "validate E c f = Inr r"
  proof -
    from that obtain d where
      "validateKeybox E (getProp (getProp d ''AndroidAttestation'') ''Keybox'') f = Inr r"
      by (rule validate_InrD)
    from validateKeybox_InrD(6) [OF this] show ?thesis
      by (simp add: statusOf_def)
  qed
  have B: "overallStatus r0 \<noteq> INVALID" if "validate_p0 E c f = Inr r0"
  proof -
    from that obtain d where
      "validateKeybox_p0 E (getProp (getProp d ''AndroidAttestation'') ''Keybox'') f = Inr r0"
      by (rule validate_p0_InrD)
    from validateKeybox_p0_InrD(6) [OF this] show ?thesis
      by simp
  qed
  have C: "validateXML E c f pg =
        pg\<lparr> alerts := alerts pg @
               [''Validation Failed: '' @
                (if doc = Undefined then ''Cannot read properties of undefined''
                 else translate E ''errors.missing_keybox'')] \<rparr> \<and>
      report (validateXML E c f pg) = report pg \<and>
      validateXML_p0 E c f pg0 =
        pg0\<lparr> alerts := alerts pg0 @
                [''Validation Failed: '' @
                 (if doc = Undefined then ''Cannot read properties of undefined''
                  else translate E ''errors.missing_keybox'')] \<rparr> \<and>
      report (validateXML_p0 E c f pg0) = report pg0"
    if "parse E c = Inr doc"
      and "\<not> truthy (getProp doc ''AndroidAttestation'') \<or>
           \<not> truthy (getProp (getProp doc ''AndroidAttestation'') ''Keybox'')"
    using that(1) K [OF that(2)]
    by (simp add: validate_def validateXML_def validate_p0_def validateXML_p0_def)
  from A B C show ?thesis by blast
qed

text \<open>The example document whose attestation container holds no keybox.\<close>

theorem absent_keybox_witness:
  "parse exampleEnv ''<nokeybox/>'' =
     Inr (Obj [(''AndroidAttestation'', Obj [(''NumberOfKeyboxes'', Num 0)])]) \<and>
   runExample ''<nokeybox/>'' =
     \<lparr> report = None, xmlContent = [],
       alerts = [''Validation Failed: errors.missing_keybox''] \<rparr> \<and>
   runExample_p0 ''<nokeybox/>'' =
     \<lparr> report = None, xmlContent = [],
       alerts = [''Validation Failed: errors.missing_keybox''] \<rparr>"
proof -
  let ?doc = "Obj [(''AndroidAttestation'', Obj [(''NumberOfKeyboxes'', Num 0)])]"
  have h: "parse exampleEnv ''<nokeybox/>'' = Inr ?doc"
    by code_simp
  have k: "\<not> truthy (getProp (getProp ?doc ''AndroidAttestation'') ''Keybox'')"
    by simp
  have t: "translate exampleEnv ''errors.missing_keybox'' = ''errors.missing_keybox''"
    by (simp add: exampleEnv_def)
  from absent_keybox [of exampleEnv "''<nokeybox/>''" ?doc "''keybox.xml''" emptyPage emptyPage]
    h k t
  show ?thesis
    by (simp add: runExample_def runExample_p0_def emptyPage_def)
qed

text \<open>
  C5 as stated fails: for the example document without the attestation container, and
  for the one without a keybox, the page has no report afterwards, only the alert.
\<close>

theorem absent_keybox_counterexample:
  "report (runExample ''<other/>'') = None \<and>
   alerts (runExample ''<other/>'') = [''Validation Failed: errors.missing_keybox''] \<and>
   report (runExample ''<nokeybox/>'') = None \<and>
   report (runExample_p0 ''<other/>'') = None \<and>
   report (runExample_p0 ''<nokeybox/>'') = None"
  by code_simp

section \<open>The numeric score without a certificate chain\<close>

lemma checkAlgorithm_sc: "sc (checkAlgorithm E kb a) \<le> sc a"
  by (simp add: checkAlgorithm_def Let_def)

lemma checkDeviceID_sc: "checkDeviceID E kb a = Inr a' \<Longrightarrow> sc a' \<le> sc a"
  by (auto simp: checkDeviceID_def Let_def split: if_splits jsval.splits)

lemma checkPrivateKey_sc: "checkPrivateKey E kb a = Inr a' \<Longrightarrow> sc a' \<le> sc a"
  by (auto simp: checkPrivateKey_def Let_def split: if_splits jsval.splits)

lemma checkChain_missing:
  assumes "\<not> truthy (getProp kb ''CertificateChain'') \<or>
           \<not> truthy (getProp (getProp kb ''CertificateChain'') ''Certificate'')"
  shows "sc (checkChain E kb a) = sc a - 20" and "\<not> ready (checkChain E kb a)"
  using assms by (auto simp: checkChain_def Let_def)

lemma finish_fields:
  "score (finish kb a) = max 0 (sc a)" "strongIntegrityReady (finish kb a) = ready a"
  by (simp_all add: finish_def Let_def)

lemma checkKeybox_missing_chain:
  assumes "\<not> truthy (getProp kb ''CertificateChain'') \<or>
           \<not> truthy (getProp (getProp kb ''CertificateChain'') ''Certificate'')"
    and "checkKeybox E kb = Inr r"
  shows "score r \<le> 80 \<and> 0 \<le> score r \<and> \<not> strongIntegrityReady r"
proof -
  let ?a0 = "\<lparr> sc = 100, ready = True, errs = [], warns = [], inf = [] \<rparr>"
  from assms(2) obtain a2 a3 where
    d: "checkDeviceID E kb (checkAlgorithm E kb ?a0) = Inr a2" and
    p: "checkPrivateKey E kb a2 = Inr a3" and
    r: "r = finish kb (checkChain E kb a3)"
    by (auto simp: checkKeybox_def Let_def split: sum.splits)
  have "sc (checkAlgorithm E kb ?a0) \<le> 100"
    using checkAlgorithm_sc [of E kb ?a0] by simp
  with checkDeviceID_sc [OF d] checkPrivateKey_sc [OF p] have "sc a3 \<le> 100" by linarith
  with checkChain_missing [OF assms(1), of E a3] r show ?thesis
    by (simp add: finish_fields)
qed

text \<open>
  C6, as the code has it. In the numeric validator, for every parsed document with a
  keybox whose certificate chain (or its certificate entry) is missing, a result is
  produced, its score is at most 80 (and at least 0), and it is not ready for strong
  integrity. The missing chain costs 20 points, not 50.
\<close>

theorem missing_chain_score:
  assumes "parse E c = Inr doc"
    and "truthy (getProp (getProp doc ''AndroidAttestation'') ''Keybox'')"
    and "\<not> truthy (getProp (getProp (getProp doc ''AndroidAttestation'') ''Keybox'')
                    ''CertificateChain'') \<or>
         \<not> truthy (getProp (getProp (getProp (getProp doc ''AndroidAttestation'') ''Keybox'')
                    ''CertificateChain'') ''Certificate'')"
  shows "\<exists>r. validateXML_p1 E c res = Some r \<and> score r \<le> 80 \<and> 0 \<le> score r \<and>
             \<not> strongIntegrityReady r"
proof -
  let ?kb = "getProp (getProp doc ''AndroidAttestation'') ''Keybox''"
  have nd: "doc \<noteq> Undefined" "truthy (getProp doc ''AndroidAttestation'')"
    using assms(2) by (cases doc; cases "getProp doc ''AndroidAttestation''"; auto)+
  show ?thesis
  proof (cases "checkKeybox E ?kb")
    case (Inl e)
    with assms(1,2) nd show ?thesis
      by (simp add: validateXML_p1_def syntaxErrorResult_def)
  next
    case (Inr r)
    with checkKeybox_missing_chain [OF assms(3) Inr] assms(1,2) nd show ?thesis
      by (simp add: validateXML_p1_def)
  qed
qed

text \<open>The example keybox that has every field but the chain.\<close>

theorem missing_chain_score_witness:
  "parse exampleEnv ''<nochain/>'' = Inr exampleNoChain \<and>
   getProp (getProp (getProp exampleNoChain ''AndroidAttestation'') ''Keybox'')
     ''CertificateChain'' = Undefined \<and>
   (\<exists>r. runExample_p1 ''<nochain/>'' = Some r \<and> score r \<le> 80 \<and> 0 \<le> score r \<and>
        \<not> strongIntegrityReady r)"
proof -
  have h: "parse exampleEnv ''<nochain/>'' = Inr exampleNoChain"
    by code_simp
  have k: "truthy (getProp (getProp exampleNoChain ''AndroidAttestation'') ''Keybox'')"
    by (simp add: exampleNoChain_def)
  have m: "getProp (getProp (getProp exampleNoChain ''AndroidAttestation'') ''Keybox'')
     ''CertificateChain'' = Undefined"
    by (simp add: exampleNoChain_def)
  from missing_chain_score [OF h k, of None] m h
  show ?thesis
    by (simp add: runExample_p1_def)
qed

text \<open>
  C6 as stated fails: the example keybox with ECDSA, a device id of twelve characters
  and a private key of 120 characters, but no certificate chain, scores 80, above 50.
\<close>

theorem missing_chain_score_counterexample:
  "map_option score (runExample_p1 ''<nochain/>'') = Some 80 \<and>
   map_option strongIntegrityReady (runExample_p1 ''<nochain/>'') = Some False \<and>
   map_option errors (runExample_p1 ''<nochain/>'') = Some [''errors.cert_chain_empty'']"
  by code_simp

section \<open>Device identifiers and leaks\<close>

lemma not_unknown_flagged:
  "\<not> str_includes (toLowerCase ''Unknown'') ''android''"
  "\<not> str_includes (toLowerCase ''Unknown'') ''test''"
  by code_simp+

lemma atd_not_in_LEAK_DB:
  "\<not> list_ex (\<lambda>bad. str_includes ''android_test_device'' bad) LEAK_DB"
  by code_simp

lemma atd_flagged_p0:
  "list_ex (\<lambda>w. str_includes (toLowerCase ''android_test_device'') w) [''android'', ''test'']"
  by code_simp

text \<open>The earlier validator flags a device id that holds \<open>android\<close> or \<open>test\<close>.\<close>

lemma isLeaked_p0:
  assumes "validate_p0 E c f = Inr r" and "deviceID r = Str s"
    and "str_includes (toLowerCase s) ''android'' \<or> str_includes (toLowerCase s) ''test''"
  shows "isLeaked r"
proof -
  from assms(1) obtain doc where
    v: "validateKeybox_p0 E (getProp (getProp doc ''AndroidAttestation'') ''Keybox'') f = Inr r"
    by (rule validate_p0_InrD)
  let ?d = "getProp (getProp (getProp doc ''AndroidAttestation'') ''Keybox'') ''DeviceID''"
  have dev: "js_or ?d (Str ''Unknown'') = Str s"
    using validateKeybox_p0_InrD(3) [OF v] assms(2) by simp
  have "truthy ?d"
  proof (rule ccontr)
    assume "\<not> truthy ?d"
    with dev have "s = ''Unknown''" by (simp add: js_or_def)
    with assms(3) not_unknown_flagged show False by simp
  qed
  with dev have d: "?d = Str s" by (simp add: js_or_def)
  then have "deviceFlagged_p0 ?d = Inr True"
    using assms(3) \<open>truthy ?d\<close> by (auto simp: deviceFlagged_p0_def js_or_def)
  with validateKeybox_p0_InrD(4) [OF v] show ?thesis
    by (simp split: if_splits)
qed

text \<open>The current validator: a revoked certificate, or a \<open>LEAK_DB\<close> entry in the device id.\<close>

lemma isLeaked_cur:
  assumes "validate E c f = Inr r" and "deviceID r = Str s"
  shows "isLeaked r =
     ((\<exists>x \<in> set (certificates r). isRevoked x) \<or> (\<exists>bad \<in> set LEAK_DB. str_includes s bad))"
proof -
  from assms(1) obtain doc where
    v: "validateKeybox E (getProp (getProp doc ''AndroidAttestation'') ''Keybox'') f = Inr r"
    by (rule validate_InrD)
  from validateKeybox_InrD(1,4) [OF v] assms(2) show ?thesis
    by (auto simp: deviceInLeakDb_def list_ex_iff set_sortByType split: if_splits)
qed

text \<open>
  C7, as the code has it. In the earlier validator (part_000) a report is leaked
  whenever its device id, lower-cased, contains \<open>android\<close> or \<open>test\<close>; so
  \<open>android_test_device\<close> is leaked there. In the current validator
  (pages/Validator.tsx) the device id is searched for the entries of \<open>LEAK_DB\<close>, which
  hold neither \<open>android\<close> nor \<open>test\<close>: a report is leaked whenever its device id contains
  an entry of \<open>LEAK_DB\<close>, and a report with the device id \<open>android_test_device\<close> is
  leaked only if one of its certificates is revoked.
\<close>

theorem device_leak:
  "(validate_p0 E c f = Inr r0 \<and> deviceID r0 = Str s \<and> w \<in> {''android'', ''test''} \<and>
    toLowerCase s = a @ w @ b \<longrightarrow> isLeaked r0) \<and>
   (validate_p0 E c f = Inr r0 \<and> deviceID r0 = Str ''android_test_device'' \<longrightarrow> isLeaked r0) \<and>
   (validate E c f = Inr r \<and> deviceID r = Str s \<and> bad \<in> set LEAK_DB \<and> s = a @ bad @ b \<longrightarrow>
      isLeaked r) \<and>
   ''android'' \<notin> set LEAK_DB \<and> ''test'' \<notin> set LEAK_DB \<and>
   (validate E c f = Inr r \<and> deviceID r = Str ''android_test_device'' \<longrightarrow>
      isLeaked r = (\<exists>x \<in> set (certificates r). isRevoked x))"
proof -
  have A: "isLeaked r0" if "validate_p0 E c f = Inr r0" "deviceID r0 = Str s"
    "w \<in> {''android'', ''test''}" "toLowerCase s = a @ w @ b"
  proof -
    from that(3,4)
    have "str_includes (toLowerCase s) ''android'' \<or> str_includes (toLowerCase s) ''test''"
      unfolding str_includes_iff by blast
    with that(1,2) show ?thesis by (rule isLeaked_p0)
  qed
  have B: "isLeaked r0"
    if "validate_p0 E c f = Inr r0" "deviceID r0 = Str ''android_test_device''"
    using that atd_flagged_p0 by (auto intro: isLeaked_p0)
  have C: "isLeaked r" if "validate E c f = Inr r" "deviceID r = Str s" "bad \<in> set LEAK_DB"
    "s = a @ bad @ b"
  proof -
    from that(4) have "str_includes s bad" unfolding str_includes_iff by blast
    with isLeaked_cur [OF that(1,2)] that(3) show ?thesis by blast
  qed
  have D: "''android'' \<notin> set LEAK_DB" "''test'' \<notin> set LEAK_DB"
    by (simp_all add: LEAK_DB_def)
  have F: "isLeaked r = (\<exists>x \<in> set (certificates r). isRevoked x)"
    if "validate E c f = Inr r" "deviceID r = Str ''android_test_device''"
    using isLeaked_cur [OF that] atd_not_in_LEAK_DB by (simp add: list_ex_iff)
  from A B C D F show ?thesis by blast
qed

text \<open>
  The example keybox of \<open>android_test_device\<close> is leaked in the earlier validator; the
  example keybox of \<open>xx-deadbeef-01\<close> is leaked in the current one.
\<close>

theorem device_leak_witness:
  "map_option deviceID (report (runExample_p0 ''<android/>'')) =
     Some (Str ''android_test_device'') \<and>
   map_option isLeaked (report (runExample_p0 ''<android/>'')) = Some True \<and>
   map_option deviceID (report (runExample ''<deadbeef/>'')) = Some (Str ''xx-deadbeef-01'') \<and>
   map_option isLeaked (report (runExample ''<deadbeef/>'')) = Some True"
proof -
  let ?p = "the (report (runExample ''<deadbeef/>''))"
  let ?q = "the (report (runExample_p0 ''<android/>''))"
  have v: "validate exampleEnv ''<deadbeef/>'' ''keybox.xml'' = Inr ?p"
    "validate_p0 exampleEnv ''<android/>'' ''keybox.xml'' = Inr ?q"
    by code_simp+
  have d: "deviceID ?p = Str ''xx-deadbeef-01''" "deviceID ?q = Str ''android_test_device''"
    by code_simp+
  have some: "report (runExample ''<deadbeef/>'') = Some ?p"
    "report (runExample_p0 ''<android/>'') = Some ?q"
    by code_simp+
  have m: "''deadbeef'' \<in> set LEAK_DB" "''xx-deadbeef-01'' = ''xx-'' @ ''deadbeef'' @ ''-01''"
    by (simp_all add: LEAK_DB_def)
  from device_leak [where E = exampleEnv and c = "''<android/>''" and f = "''keybox.xml''"
      and ?r0.0 = ?q] v(2) d(2)
  have "isLeaked ?q" by simp
  moreover
  from device_leak [where E = exampleEnv and c = "''<deadbeef/>''" and f = "''keybox.xml''"
      and r = ?p and s = "''xx-deadbeef-01''" and bad = "''deadbeef''" and a = "''xx-''"
      and b = "''-01''"] v(1) d(1) m
  have "isLeaked ?p" by blast
  ultimately have "map_option deviceID (Some ?q) = Some (Str ''android_test_device'') \<and>
    map_option isLeaked (Some ?q) = Some True \<and>
    map_option deviceID (Some ?p) = Some (Str ''xx-deadbeef-01'') \<and>
    map_option isLeaked (Some ?p) = Some True"
    using d by simp
  then show ?thesis unfolding some [symmetric] .
qed

text \<open>
  C7 as stated fails on the current validator: the example keybox with the device id
  \<open>android_test_device\<close> and no revoked certificate is not leaked, and its status is
  VALID.
\<close>

theorem device_leak_counterexample:
  "map_option deviceID (report (runExample ''<android/>'')) =
     Some (Str ''android_test_device'') \<and>
   map_option isLeaked (report (runExample ''<android/>'')) = Some False \<and>
   map_option overallStatus (report (runExample ''<android/>'')) = Some VALID"
  by code_simp

section \<open>Days remaining\<close>

lemma leafCertOf_nonempty:
  "chain \<noteq> [] \<Longrightarrow>
   leafCertOf chain =
     Some (case find (\<lambda>x. ctype x = END_ENTITY) chain of Some l \<Rightarrow> l | None \<Rightarrow> hd chain)"
  by (cases chain) (auto simp: leafCertOf_def findType_def split: option.splits)

text \<open>
  The current validator does what C8 says: with a non-empty certificate list, the days
  remaining are the day difference between the report's clock reading and the
  \<open>notAfter\<close> of the certificate classified END_ENTITY or, when there is none, of the
  first decoded certificate in the order of the chain.
\<close>

lemma daysRemaining_of_leaf:
  assumes "validateKeybox E kb f = Inr r" and "certificates r \<noteq> []"
  shows "parseChain E (certsRawOf kb) \<noteq> [] \<and>
         daysRemaining r =
           differenceInDays E
             (notAfter (case find (\<lambda>x. ctype x = END_ENTITY) (parseChain E (certsRawOf kb)) of
                          Some l \<Rightarrow> l
                        | None \<Rightarrow> hd (parseChain E (certsRawOf kb))))
             (nowReport E)"
proof -
  from validateKeybox_InrD(1) [OF assms(1)] assms(2)
  have ne: "parseChain E (certsRawOf kb) \<noteq> []"
    by (auto simp: sortByType_def)
  from validateKeybox_InrD(9) [OF assms(1)] leafCertOf_nonempty [OF ne] ne show ?thesis
    by (simp add: daysRemainingOf_def)
qed

text \<open>
  C8 on the earlier validator (part_000), which sorts the certificate list in place
  before it looks for the leaf. The example chain is an undecodable first entry, then
  the vendor intermediate (expiring 1520 days from the clock), then the vendor root
  (expiring 4808 days from it). No certificate is END_ENTITY; the first certificate in
  chain order is the intermediate, yet the days remaining are those of the root, the
  first in display order. The current validator reports 1520 on the same chain.
\<close>

theorem daysRemaining_p0_display_order:
  "map_option (map index \<circ> certificates) (report (runExample_p0 ''<broken/>'')) =
     Some [3, 2] \<and>
   map_option (map ctype \<circ> certificates) (report (runExample_p0 ''<broken/>'')) =
     Some [ROOT, INTERMEDIATE] \<and>
   map_option (map notAfter \<circ> certificates) (report (runExample_p0 ''<broken/>'')) =
     Some [Some 2208988800000, Some 1924905600000] \<and>
   differenceInDays exampleEnv (Some 2208988800000) (nowReport exampleEnv) = Number 4808 \<and>
   differenceInDays exampleEnv (Some 1924905600000) (nowReport exampleEnv) = Number 1520 \<and>
   map_option daysRemaining (report (runExample_p0 ''<broken/>'')) = Some (Number 4808) \<and>
   map_option daysRemaining (report (runExample ''<broken/>'')) = Some (Number 1520)"
  by code_simp

section \<open>A keybox without certificates\<close>

lemma certsRawOf_empty:
  assumes "\<not> truthy (getProp (getProp kb ''CertificateChain'') ''Certificate'') \<or>
           getProp (getProp kb ''CertificateChain'') ''Certificate'' = Arr []"
  shows "certsRawOf kb = []"
  using assms by (auto simp: certsRawOf_def Let_def)

lemma parseChain_Nil: "parseChain E [] = []" "parseChain_p0 E [] = []"
  by (simp_all add: parseChain_def parseChain_p0_def map_filter_simps)

lemma deviceInLeakDb_text:
  assumes "\<not> truthy d \<or> (\<exists>s. d = Str s)"
  shows "\<exists>l. deviceInLeakDb (js_or d (Str ''Unknown'')) = Inr l"
  using assms by (auto simp: deviceInLeakDb_def js_or_def)

lemma deviceFlagged_p0_text:
  assumes "\<not> truthy d \<or> (\<exists>s. d = Str s)"
  shows "\<exists>l. deviceFlagged_p0 d = Inr l"
  using assms by (auto simp: deviceFlagged_p0_def js_or_def)

lemma validateKeybox_empty_chain:
  assumes "certsRawOf kb = []"
    and "\<not> truthy (getProp kb ''DeviceID'') \<or> (\<exists>s. getProp kb ''DeviceID'' = Str s)"
  shows "\<exists>r. validateKeybox E kb f = Inr r \<and> certificates r = [] \<and>
              daysRemaining r = Number 0 \<and> expiresOn r = ''Unknown''"
proof -
  from deviceInLeakDb_text [OF assms(2)] obtain l where
    "deviceInLeakDb (js_or (getProp kb ''DeviceID'') (Str ''Unknown'')) = Inr l" by blast
  then show ?thesis
    using assms(1)
    by (simp add: validateKeybox_def Let_def parseChain_Nil sortByType_def leafCertOf_def
        findType_def expiresOnOf_def daysRemainingOf_def)
qed

lemma validateKeybox_p0_empty_chain:
  assumes "certsRawOf kb = []"
    and "\<not> truthy (getProp kb ''DeviceID'') \<or> (\<exists>s. getProp kb ''DeviceID'' = Str s)"
  shows "\<exists>r. validateKeybox_p0 E kb f = Inr r \<and> certificates r = [] \<and>
              daysRemaining r = Number 0 \<and> expiresOn r = ''Unknown''"
proof -
  from deviceFlagged_p0_text [OF assms(2)] obtain l where
    "deviceFlagged_p0 (getProp kb ''DeviceID'') = Inr l" by blast
  then show ?thesis
    using assms(1)
    by (simp add: validateKeybox_p0_def Let_def parseChain_Nil sortByType_def leafCertOf_def
        findType_def expiresOnOf_def daysRemainingOf_def)
qed

text \<open>
  With a device id that is a text or missing, a keybox whose certificate chain is absent
  or empty gets its report from each categorical validator: the certificate list is
  empty, the days remaining are 0 and the expiry text is \<open>Unknown\<close>.
\<close>

lemma empty_chain_report:
  assumes "parse E c = Inr doc"
    and "kb = getProp (getProp doc ''AndroidAttestation'') ''Keybox''"
    and "truthy kb"
    and "\<not> truthy (getProp (getProp kb ''CertificateChain'') ''Certificate'') \<or>
         getProp (getProp kb ''CertificateChain'') ''Certificate'' = Arr []"
    and "\<not> truthy (getProp kb ''DeviceID'') \<or> (\<exists>s. getProp kb ''DeviceID'' = Str s)"
  shows "(\<exists>r. validate E c f = Inr r \<and>
              validateXML E c f pg = pg\<lparr> report := Some r, xmlContent := c \<rparr> \<and>
              certificates r = [] \<and> daysRemaining r = Number 0 \<and>
              expiresOn r = ''Unknown'') \<and>
         (\<exists>r0. validate_p0 E c f = Inr r0 \<and>
              validateXML_p0 E c f pg0 = pg0\<lparr> report := Some r0, xmlContent := c \<rparr> \<and>
              certificates r0 = [] \<and> daysRemaining r0 = Number 0 \<and>
              expiresOn r0 = ''Unknown'')"
proof -
  have nd: "doc \<noteq> Undefined"
    using assms(2,3) by auto
  have e: "certsRawOf kb = []"
    using assms(4) by (rule certsRawOf_empty)
  from validateKeybox_empty_chain [OF e assms(5), of E f] obtain r where
    r: "validateKeybox E kb f = Inr r" "certificates r = []" "daysRemaining r = Number 0"
      "expiresOn r = ''Unknown''" by blast
  from validateKeybox_p0_empty_chain [OF e assms(5), of E f] obtain r0 where
    r0: "validateKeybox_p0 E kb f = Inr r0" "certificates r0 = []"
      "daysRemaining r0 = Number 0" "expiresOn r0 = ''Unknown''" by blast
  have v: "validate E c f = Inr r" "validate_p0 E c f = Inr r0"
    using assms(1,2,3) nd r(1) r0(1) by (simp_all add: validate_def validate_p0_def)
  then have "validateXML E c f pg = pg\<lparr> report := Some r, xmlContent := c \<rparr>"
    "validateXML_p0 E c f pg0 = pg0\<lparr> report := Some r0, xmlContent := c \<rparr>"
    by (simp_all add: validateXML_def validateXML_p0_def)
  with v r(2-4) r0(2-4) show ?thesis by blast
qed

text \<open>
  With a device id that is a number other than zero, the same keybox gets no report:
  no certificate is revoked, so the device id is searched, and a number has neither
  \<open>includes\<close> nor \<open>toLowerCase\<close>. Each categorical validator throws, raises one alert
  and leaves the report of the page as it was.
\<close>

lemma empty_chain_number_device:
  assumes "parse E c = Inr doc"
    and "kb = getProp (getProp doc ''AndroidAttestation'') ''Keybox''"
    and "\<not> truthy (getProp (getProp kb ''CertificateChain'') ''Certificate'') \<or>
         getProp (getProp kb ''CertificateChain'') ''Certificate'' = Arr []"
    and "getProp kb ''DeviceID'' = Num n" and "n \<noteq> 0"
  shows "(\<exists>e. validate E c f = Inl e) \<and> report (validateXML E c f pg) = report pg \<and>
         length (alerts (validateXML E c f pg)) = Suc (length (alerts pg)) \<and>
         (\<exists>e. validate_p0 E c f = Inl e) \<and> report (validateXML_p0 E c f pg0) = report pg0 \<and>
         length (alerts (validateXML_p0 E c f pg0)) = Suc (length (alerts pg0))"
proof -
  have k: "truthy kb"
    using assms(4) by (cases kb) auto
  have nd: "doc \<noteq> Undefined"
    using assms(2) k by auto
  have e: "certsRawOf kb = []"
    using assms(3) by (rule certsRawOf_empty)
  have "\<exists>x. validateKeybox E kb f = Inl x"
    using e assms(4,5)
    by (simp add: validateKeybox_def Let_def parseChain_Nil deviceInLeakDb_def js_or_def)
  moreover have "\<exists>x. validateKeybox_p0 E kb f = Inl x"
    using e assms(4,5)
    by (simp add: validateKeybox_p0_def Let_def parseChain_Nil sortByType_def
        deviceFlagged_p0_def js_or_def)
  ultimately obtain x y where
    "validate E c f = Inl x" "validate_p0 E c f = Inl y"
    using assms(1,2) k nd by (auto simp: validate_def validate_p0_def)
  then show ?thesis
    by (simp add: validateXML_def validateXML_p0_def)
qed

text \<open>
  C10 on the example keybox with the device id \<open>12345678\<close> and no certificate chain. The
  claim is that a well-formed keybox without a chain still gets a full report, with an
  empty certificate list, 0 days remaining and the expiry text \<open>Unknown\<close>. With the
  device id \<open>mydevice1234\<close> both categorical validators show that report; with the
  digits, each of them shows no report and raises one alert instead.
\<close>

theorem empty_chain_digits_device:
  "parse exampleEnv ''<digits/>'' = Inr exampleDigits \<and>
   getProp (getProp (getProp exampleDigits ''AndroidAttestation'') ''Keybox'') ''DeviceID'' =
     Num 12345678 \<and>
   certsRawOf (getProp (getProp exampleDigits ''AndroidAttestation'') ''Keybox'') = [] \<and>
   report (runExample ''<digits/>'') = None \<and>
   length (alerts (runExample ''<digits/>'')) = 1 \<and>
   report (runExample_p0 ''<digits/>'') = None \<and>
   length (alerts (runExample_p0 ''<digits/>'')) = 1 \<and>
   map_option certificates (report (runExample ''<nochain/>'')) = Some [] \<and>
   map_option daysRemaining (report (runExample ''<nochain/>'')) = Some (Number 0) \<and>
   map_option expiresOn (report (runExample ''<nochain/>'')) = Some ''Unknown'' \<and>
   map_option certificates (report (runExample_p0 ''<nochain/>'')) = Some [] \<and>
   map_option daysRemaining (report (runExample_p0 ''<nochain/>'')) = Some (Number 0) \<and>
   map_option expiresOn (report (runExample_p0 ''<nochain/>'')) = Some ''Unknown''"
  by code_simp

end
